theory Spec2Isabelle
  imports Complex_Main "HOL-Library.Multiset" "HOL-Library.Word"
begin

section \<open>SnapNote: the document pipeline of processor.py\<close>

text \<open>
  The theory embeds \<^verbatim>\<open>src/processor.py\<close>: \<^verbatim>\<open>order_points\<close>,
  \<^verbatim>\<open>four_point_transform\<close>, \<^verbatim>\<open>find_document_contour\<close>,
  \<^verbatim>\<open>apply_adaptive_threshold\<close>, \<^verbatim>\<open>increase_contrast\<close> and
  \<^verbatim>\<open>process_image\<close>.

  Conventions of the embedding.
  \<^item> A floating-point number is the real number it denotes. An operation on
    \<^verbatim>\<open>float32\<close> or \<^verbatim>\<open>float64\<close> values is the exact operation followed by rounding
    to the nearest number of 24 or 53 significant bits, ties to even (\<open>float32\<close>,
    \<open>float64\<close> below); overflow, subnormal numbers and NaN are not modelled, and an
    integer is taken to convert to a float exactly. The keys that \<open>order_points\<close>
    compares are exact.
  \<^item> A pixel channel is an \<^verbatim>\<open>uint8\<close>, an \<open>8 word\<close>.
  \<^item> A raised exception is a value \<open>Inl e\<close> of the sum type \<open>error + 'a\<close>.
  \<^item> OpenCV is not part of the repository. The calls whose pixel arithmetic no
    property below depends on are fields of a record \<open>cv_lib\<close> that every function
    takes as its first argument; the calls whose behaviour a property depends on
    (\<^verbatim>\<open>cv2.cvtColor\<close>'s check of the channel count, \<^verbatim>\<open>cv2.convertScaleAbs\<close>, the
    size of the output of \<^verbatim>\<open>cv2.warpPerspective\<close>, \<^verbatim>\<open>np.argmin\<close>, \<^verbatim>\<open>np.argmax\<close>) are
    written out from their documentation and observed behaviour.
\<close>

subsection \<open>Floating-point rounding\<close>

text \<open>Rounding to the nearest integer, ties to the even one.\<close>

definition round_half_even :: "real \<Rightarrow> int" where
  "round_half_even x =
     (let f = \<lfloor>x\<rfloor>; d = x - of_int f
      in if d < 1 / 2 then f else if 1 / 2 < d then f + 1 else if even f then f else f + 1)"

definition pow2 :: "int \<Rightarrow> real" where
  "pow2 e = (if 0 \<le> e then 2 ^ nat e else 1 / 2 ^ nat (- e))"

text \<open>The exponent \<open>e\<close> with \<open>2\<^sup>e \<le> |x| < 2\<^sup>e\<^sup>+\<^sup>1\<close>, for \<open>x\<close> other than 0.\<close>

definition binade :: "real \<Rightarrow> int" where
  "binade x = \<lfloor>log 2 \<bar>x\<bar>\<rfloor>"

text \<open>Rounding to \<open>p\<close> significant bits: to the nearest multiple of the unit in the last place.\<close>

definition fl :: "nat \<Rightarrow> real \<Rightarrow> real" where
  "fl p x =
     (if x = 0 then 0
      else let u = pow2 (binade x - int p + 1) in of_int (round_half_even (x / u)) * u)"

definition float32 :: "real \<Rightarrow> real" where
  "float32 x = fl 24 x"

definition float64 :: "real \<Rightarrow> real" where
  "float64 x = fl 53 x"

subsection \<open>Points and the canonical ordering\<close>

type_synonym point = "real \<times> real"

datatype error = CvError | ValueError

record quad =
  tl :: point
  tr :: point
  br :: point
  bl :: point

text \<open>
  \<^verbatim>\<open>np.argmin\<close> and \<^verbatim>\<open>np.argmax\<close> return the index of the first occurrence of
  the extreme value. Both raise \<^verbatim>\<open>ValueError\<close> on an empty array; the caller
  \<open>order_points\<close> checks for that before it uses them.
\<close>

fun argmin :: "real list \<Rightarrow> nat" where
  "argmin [] = 0"
| "argmin [x] = 0"
| "argmin (x # y # ys) = (let i = argmin (y # ys) in if x \<le> (y # ys) ! i then 0 else Suc i)"

fun argmax :: "real list \<Rightarrow> nat" where
  "argmax [] = 0"
| "argmax [x] = 0"
| "argmax (x # y # ys) = (let i = argmax (y # ys) in if (y # ys) ! i \<le> x then 0 else Suc i)"

text \<open>\<^verbatim>\<open>pts.sum(axis=1)\<close>: a row \<open>(x, y)\<close> gives \<open>x + y\<close>.\<close>

definition psum :: "point \<Rightarrow> real" where
  "psum p = fst p + snd p"

text \<open>\<^verbatim>\<open>np.diff(pts, axis=1)\<close>: a row \<open>(x, y)\<close> gives \<open>y - x\<close>.\<close>

definition pdiff :: "point \<Rightarrow> real" where
  "pdiff p = snd p - fst p"

text \<open>
  Lines 12 to 21: the selection of the four corners. The array \<^verbatim>\<open>rect\<close> that receives
  them is of type \<^verbatim>\<open>float32\<close> (line 8): the rounding of the stored coordinates is
  \<open>float32_quad\<close> below, applied where the only caller, \<open>four_point_transform\<close>, takes
  the result.
\<close>

definition order_points :: "point list \<Rightarrow> error + quad" where
  "order_points pts =
     (if pts = [] then Inl ValueError
      else
        let s = map psum pts;
            rect0 = pts ! argmin s;
            rect2 = pts ! argmax s;
            diff = map pdiff pts;
            rect1 = pts ! argmin diff;
            rect3 = pts ! argmax diff
        in Inr \<lparr>tl = rect0, tr = rect1, br = rect2, bl = rect3\<rparr>)"

definition float32_quad :: "quad \<Rightarrow> quad" where
  "float32_quad q =
     \<lparr>tl = (float32 (fst (tl q)), float32 (snd (tl q))),
      tr = (float32 (fst (tr q)), float32 (snd (tr q))),
      br = (float32 (fst (br q)), float32 (snd (br q))),
      bl = (float32 (fst (bl q)), float32 (snd (bl q)))\<rparr>"





subsection \<open>Rasters\<close>

text \<open>
  A raster is a numpy array of \<^verbatim>\<open>uint8\<close>: of shape \<open>(h, w)\<close> when it has one channel,
  of shape \<open>(h, w, 3)\<close> when it is a colour image in OpenCV's BGR order. The list of rows
  is taken to be rectangular.
\<close>

type_synonym gray_image = "8 word list list"

type_synonym bgr = "8 word \<times> 8 word \<times> 8 word"

datatype raster = Gray gray_image | Color "bgr list list"

fun shape_h :: "raster \<Rightarrow> nat" where
  "shape_h (Gray g) = length g"
| "shape_h (Color c) = length c"

fun shape_w :: "raster \<Rightarrow> nat" where
  "shape_w (Gray g) = (case g of [] \<Rightarrow> 0 | r # _ \<Rightarrow> length r)"
| "shape_w (Color c) = (case c of [] \<Rightarrow> 0 | r # _ \<Rightarrow> length r)"

fun channels :: "raster \<Rightarrow> nat" where
  "channels (Gray g) = 1"
| "channels (Color c) = 3"

definition empty_raster :: "raster \<Rightarrow> bool" where
  "empty_raster r \<longleftrightarrow> shape_h r = 0 \<or> shape_w r = 0"

text \<open>An operation applied to every channel value of every pixel.\<close>

fun map_raster :: "(8 word \<Rightarrow> 8 word) \<Rightarrow> raster \<Rightarrow> raster" where
  "map_raster f (Gray g) = Gray (map (map f) g)"
| "map_raster f (Color c) = Color (map (map (\<lambda>(b, g, r). (f b, f g, f r))) c)"

subsection \<open>The OpenCV calls\<close>

type_synonym contour = "(int \<times> int) list"

type_synonym matrix = "real list list"

text \<open>
  The OpenCV calls whose arithmetic is left open, with the arguments the source passes.
  \<open>bgr2gray\<close> is the luminance of one BGR pixel. \<open>resize\<close> and
  \<open>getPerspectiveTransform\<close> may raise; the others are reached with a non-empty
  single-channel image or with a contour and return a value. \<open>findContours\<close> stands
  for the call together with the selection of the list of contours from its result tuple
  (line 92). \<open>warp_gray\<close> and \<open>warp_bgr\<close> give the pixel that the warp of a source by a
  matrix puts at a row and a column of its output.
\<close>

record cv_lib =
  bgr2gray :: "bgr \<Rightarrow> 8 word"
  resize :: "raster \<Rightarrow> int \<times> int \<Rightarrow> error + raster"
  GaussianBlur :: "gray_image \<Rightarrow> nat \<times> nat \<Rightarrow> real \<Rightarrow> gray_image"
  Canny :: "gray_image \<Rightarrow> int \<Rightarrow> int \<Rightarrow> gray_image"
  dilate :: "gray_image \<Rightarrow> nat \<times> nat \<Rightarrow> nat \<Rightarrow> gray_image"
  findContours :: "gray_image \<Rightarrow> contour list"
  contourArea :: "contour \<Rightarrow> real"
  arcLength :: "contour \<Rightarrow> bool \<Rightarrow> real"
  approxPolyDP :: "contour \<Rightarrow> real \<Rightarrow> bool \<Rightarrow> contour"
  clahe_apply :: "real \<Rightarrow> nat \<times> nat \<Rightarrow> gray_image \<Rightarrow> gray_image"
  bilateralFilter :: "gray_image \<Rightarrow> int \<Rightarrow> real \<Rightarrow> real \<Rightarrow> gray_image"
  adaptiveThreshold :: "gray_image \<Rightarrow> int \<Rightarrow> int \<Rightarrow> real \<Rightarrow> gray_image"
  getPerspectiveTransform :: "quad \<Rightarrow> quad \<Rightarrow> error + matrix"
  warp_gray :: "gray_image \<Rightarrow> matrix \<Rightarrow> nat \<Rightarrow> nat \<Rightarrow> 8 word"
  warp_bgr :: "bgr list list \<Rightarrow> matrix \<Rightarrow> nat \<Rightarrow> nat \<Rightarrow> bgr"

text \<open>Sequencing of calls that may raise: the first exception ends the computation.\<close>

definition and_then :: "error + 'a \<Rightarrow> ('a \<Rightarrow> error + 'b) \<Rightarrow> error + 'b" where
  "and_then m f = (case m of Inl e \<Rightarrow> Inl e | Inr x \<Rightarrow> f x)"

text \<open>
  \<^verbatim>\<open>cv2.cvtColor(image, cv2.COLOR_BGR2GRAY)\<close> asserts that its input is not empty
  and that it has 3 (or 4) channels; a single-channel array raises \<^verbatim>\<open>cv2.error\<close>.
\<close>

definition cvtColor_BGR2GRAY :: "cv_lib \<Rightarrow> raster \<Rightarrow> error + gray_image" where
  "cvtColor_BGR2GRAY cv img =
     (if empty_raster img then Inl CvError
      else case img of
             Gray g \<Rightarrow> Inl CvError
           | Color c \<Rightarrow> Inr (map (map (bgr2gray cv)) c))"

text \<open>
  \<^verbatim>\<open>cv2.warpPerspective(src, M, dsize)\<close> asserts that its source is not empty. Its
  output has \<open>dsize = (width, height)\<close> columns and rows; when \<open>dsize\<close> is empty (a width
  or a height of 0) the output has the size of the source.
\<close>

definition warpPerspective :: "cv_lib \<Rightarrow> raster \<Rightarrow> matrix \<Rightarrow> int \<times> int \<Rightarrow> error + raster" where
  "warpPerspective cv src M dsize =
     (if empty_raster src then Inl CvError
      else
        let w = (if fst dsize \<le> 0 \<or> snd dsize \<le> 0 then shape_w src else nat (fst dsize));
            h = (if fst dsize \<le> 0 \<or> snd dsize \<le> 0 then shape_h src else nat (snd dsize))
        in Inr (case src of
                  Gray g \<Rightarrow> Gray (map (\<lambda>row. map (warp_gray cv g M row) [0..<w]) [0..<h])
                | Color c \<Rightarrow> Color (map (\<lambda>row. map (warp_bgr cv c M row) [0..<w]) [0..<h])))"

text \<open>
  \<^verbatim>\<open>cv2.convertScaleAbs(src, alpha, beta)\<close> computes, on every channel value,
  \<^verbatim>\<open>saturate_cast<uchar>(|src * alpha + beta|)\<close>: the absolute value, rounded to the
  nearest integer (ties to even) and saturated to \<open>0..255\<close>. On an empty array the
  Python binding returns \<^verbatim>\<open>None\<close>, without an exception.
\<close>

definition cvRound :: "real \<Rightarrow> int" where
  "cvRound x = round_half_even x"

definition saturate_uchar :: "int \<Rightarrow> 8 word" where
  "saturate_uchar i = (if i < 0 then 0 else if 255 < i then 255 else word_of_int i)"

definition scale_abs :: "real \<Rightarrow> real \<Rightarrow> 8 word \<Rightarrow> 8 word" where
  "scale_abs alpha beta v = saturate_uchar (cvRound \<bar>of_int (uint v) * alpha + beta\<bar>)"

definition convertScaleAbs :: "raster \<Rightarrow> real \<Rightarrow> real \<Rightarrow> raster option" where
  "convertScaleAbs src alpha beta =
     (if empty_raster src then None else Some (map_raster (scale_abs alpha beta) src))"

text \<open>Python's \<^verbatim>\<open>int(x)\<close> on a float: truncation towards zero.\<close>

definition py_int :: "real \<Rightarrow> int" where
  "py_int x = (if 0 \<le> x then \<lfloor>x\<rfloor> else \<lceil>x\<rceil>)"

subsection \<open>four_point_transform\<close>



text \<open>
  The arithmetic of \<^verbatim>\<open>np.float32\<close> scalars: difference, sum, \<^verbatim>\<open>x ** 2\<close> (taken as the
  correctly rounded square) and \<^verbatim>\<open>np.sqrt\<close>.
\<close>

definition sub32 :: "real \<Rightarrow> real \<Rightarrow> real" where
  "sub32 a b = float32 (a - b)"

definition add32 :: "real \<Rightarrow> real \<Rightarrow> real" where
  "add32 a b = float32 (a + b)"

definition sq32 :: "real \<Rightarrow> real" where
  "sq32 a = float32 (a * a)"

definition sqrt32 :: "real \<Rightarrow> real" where
  "sqrt32 a = float32 (sqrt a)"

text \<open>
  Lines 35 to 37 and 42 to 44: the width and the height of the target, from the
  \<^verbatim>\<open>float32\<close> corners \<open>rect\<close>.
\<close>

definition maxWidth :: "quad \<Rightarrow> int" where
  "maxWidth rect =
     (let widthA = sqrt32 (add32 (sq32 (sub32 (fst (br rect)) (fst (bl rect))))
                                 (sq32 (sub32 (snd (br rect)) (snd (bl rect)))));
          widthB = sqrt32 (add32 (sq32 (sub32 (fst (tr rect)) (fst (tl rect))))
                                 (sq32 (sub32 (snd (tr rect)) (snd (tl rect)))))
      in max (py_int widthA) (py_int widthB))"

definition maxHeight :: "quad \<Rightarrow> int" where
  "maxHeight rect =
     (let heightA = sqrt32 (add32 (sq32 (sub32 (fst (tr rect)) (fst (br rect))))
                                  (sq32 (sub32 (snd (tr rect)) (snd (br rect)))));
          heightB = sqrt32 (add32 (sq32 (sub32 (fst (tl rect)) (fst (bl rect))))
                                  (sq32 (sub32 (snd (tl rect)) (snd (bl rect)))))
      in max (py_int heightA) (py_int heightB))"

text \<open>Lines 51 to 55: the corners of the target, an array of type \<^verbatim>\<open>float32\<close>.\<close>

definition dst :: "quad \<Rightarrow> quad" where
  "dst rect =
     \<lparr>tl = (0, 0),
      tr = (float32 (of_int (maxWidth rect - 1)), 0),
      br = (float32 (of_int (maxWidth rect - 1)), float32 (of_int (maxHeight rect - 1))),
      bl = (0, float32 (of_int (maxHeight rect - 1)))\<rparr>"

definition four_point_transform :: "cv_lib \<Rightarrow> raster \<Rightarrow> point list \<Rightarrow> error + raster" where
  "four_point_transform cv img pts =
     and_then (order_points pts) (\<lambda>corners.
       let rect = float32_quad corners
       in and_then (getPerspectiveTransform cv rect (dst rect)) (\<lambda>M.
            warpPerspective cv img M (maxWidth rect, maxHeight rect)))"

subsection \<open>find_document_contour\<close>

text \<open>Line 84: the pairs of Canny thresholds, in the order the loop tries them.\<close>

definition canny_thresholds :: "(int \<times> int) list" where
  "canny_thresholds = [(30, 100), (50, 150), (75, 200)]"

text \<open>
  Lines 96 and 97: the polygon that approximates a contour; the tolerance is the
  \<^verbatim>\<open>float64\<close> product \<^verbatim>\<open>0.02 * peri\<close>.
\<close>

definition approx_polygon :: "cv_lib \<Rightarrow> contour \<Rightarrow> contour" where
  "approx_polygon cv c =
     (let peri = arcLength cv c True in approxPolyDP cv c (float64 (float64 0.02 * peri)) True)"

text \<open>Line 105: \<^verbatim>\<open>approx.reshape(4, 2) / scale\<close>, a \<^verbatim>\<open>float64\<close> division.\<close>

definition rescale :: "real \<Rightarrow> contour \<Rightarrow> point list" where
  "rescale scale approx =
     map (\<lambda>(x, y). (float64 (of_int x / scale), float64 (of_int y / scale))) approx"

text \<open>
  Lines 95 to 105: the inner loop over the contours, left at the first one accepted.
  \<^verbatim>\<open>min_area * (scale ** 2)\<close> is a \<^verbatim>\<open>float64\<close> product of \<open>min_area\<close> and the
  \<^verbatim>\<open>float64\<close> square of \<open>scale\<close>.
\<close>

fun scan_contours :: "cv_lib \<Rightarrow> real \<Rightarrow> real \<Rightarrow> contour list \<Rightarrow> point list option" where
  "scan_contours cv min_area scale [] = None"
| "scan_contours cv min_area scale (c # cnts) =
     (let approx = approx_polygon cv c
      in if length approx = 4
         then (let contour_area = contourArea cv approx;
                   scaled_min_area = float64 (min_area * float64 (scale * scale))
               in if scaled_min_area \<le> contour_area then Some (rescale scale approx)
                  else scan_contours cv min_area scale cnts)
         else scan_contours cv min_area scale cnts)"

text \<open>
  Lines 85 to 93: the contours of one edge map, the ten of largest area first.
  Python's \<^verbatim>\<open>sorted(..., reverse=True)\<close> is stable, as is \<open>sort_key\<close> on the negated key.
\<close>

definition candidates :: "cv_lib \<Rightarrow> gray_image \<Rightarrow> int \<Rightarrow> int \<Rightarrow> contour list" where
  "candidates cv gray canny_low canny_high =
     (let edged = Canny cv gray canny_low canny_high;
          edged = dilate cv edged (3, 3) 1;
          cnts = findContours cv edged
      in take 10 (sort_key (\<lambda>c. - contourArea cv c) cnts))"

text \<open>The body of the outer loop for one pair of thresholds.\<close>

definition edge_pass :: "cv_lib \<Rightarrow> gray_image \<Rightarrow> real \<Rightarrow> real \<Rightarrow> int \<times> int \<Rightarrow> point list option" where
  "edge_pass cv gray min_area scale pair =
     scan_contours cv min_area scale (candidates cv gray (fst pair) (snd pair))"

text \<open>Lines 84 to 107: the outer loop, left at the first pass that accepts a polygon.\<close>

fun try_thresholds ::
  "cv_lib \<Rightarrow> gray_image \<Rightarrow> real \<Rightarrow> real \<Rightarrow> (int \<times> int) list \<Rightarrow> point list option" where
  "try_thresholds cv gray min_area scale [] = None"
| "try_thresholds cv gray min_area scale (pair # pairs) =
     (case edge_pass cv gray min_area scale pair of
        Some q \<Rightarrow> Some q
      | None \<Rightarrow> try_thresholds cv gray min_area scale pairs)"

text \<open>Lines 69 and 70: \<^verbatim>\<open>min_area = image_area * 0.2\<close>, a \<^verbatim>\<open>float64\<close> product.\<close>

definition min_area :: "nat \<Rightarrow> nat \<Rightarrow> real" where
  "min_area h w = (let image_area = h * w in float64 (real image_area * float64 0.2))"

text \<open>Lines 73 to 75: the scale, the \<^verbatim>\<open>float64\<close> quotient \<^verbatim>\<open>1000.0 / h\<close> for a tall image.\<close>

definition detection_scale :: "nat \<Rightarrow> real" where
  "detection_scale h = (if 1000 < h then float64 (1000 / real h) else 1)"

text \<open>Lines 72 to 81: the scale, and the blurred single-channel image of the detection.\<close>

definition preprocess :: "cv_lib \<Rightarrow> raster \<Rightarrow> error + real \<times> gray_image" where
  "preprocess cv img =
     (let h = shape_h img; w = shape_w img; scale = detection_scale h
      in and_then
           (if 1000 < h
            then resize cv img (py_int (float64 (real w * scale)), py_int (float64 (real h * scale)))
            else Inr img)
           (\<lambda>proc_img.
              and_then (cvtColor_BGR2GRAY cv proc_img)
                (\<lambda>gray. Inr (scale, GaussianBlur cv gray (5, 5) 0))))"

definition find_document_contour :: "cv_lib \<Rightarrow> raster \<Rightarrow> error + point list option" where
  "find_document_contour cv img =
     (let h = shape_h img; w = shape_w img
      in and_then (preprocess cv img)
           (\<lambda>(scale, gray). Inr (try_thresholds cv gray (min_area h w) scale canny_thresholds)))"







subsection \<open>The enhancement modes and process_image\<close>

definition apply_adaptive_threshold :: "cv_lib \<Rightarrow> raster \<Rightarrow> error + raster" where
  "apply_adaptive_threshold cv img =
     and_then (cvtColor_BGR2GRAY cv img) (\<lambda>gray.
       let enhanced = clahe_apply cv 3 (8, 8) gray;
           filtered = bilateralFilter cv enhanced 9 75 75;
           thresh = adaptiveThreshold cv filtered 255 11 2
       in Inr (Gray thresh))"

definition increase_contrast :: "raster \<Rightarrow> real \<Rightarrow> real \<Rightarrow> raster option" where
  "increase_contrast img alpha beta = convertScaleAbs img alpha beta"

text \<open>
  Lines 150 to 155: the dispatch on the mode string. The value returned is a raster, or
  \<^verbatim>\<open>None\<close> where the library call of the mode returns \<^verbatim>\<open>None\<close>.
\<close>

definition enhance :: "cv_lib \<Rightarrow> string \<Rightarrow> raster \<Rightarrow> error + raster option" where
  "enhance cv enhance_mode output =
     (if enhance_mode = ''Grayscale''
      then and_then (cvtColor_BGR2GRAY cv output) (\<lambda>gray. Inr (Some (Gray gray)))
      else if enhance_mode = ''Scan''
      then and_then (apply_adaptive_threshold cv output) (\<lambda>thresh. Inr (Some thresh))
      else if enhance_mode = ''High Contrast'' then Inr (increase_contrast output 2 (- 50))
      else Inr (Some output))"

definition process_image :: "cv_lib \<Rightarrow> raster \<Rightarrow> bool \<Rightarrow> string \<Rightarrow> error + raster option" where
  "process_image cv img use_perspective enhance_mode =
     and_then
       (if use_perspective
        then and_then (find_document_contour cv img)
               (\<lambda>contour. case contour of
                             Some pts \<Rightarrow> four_point_transform cv img pts
                           | None \<Rightarrow> Inr img)
        else Inr img)
       (\<lambda>output. enhance cv enhance_mode output)"

text \<open>
  The remap of the High Contrast mode in the words of the specification:
  \<open>clamp(2.0 * v - 50, 0, 255)\<close>.
\<close>

definition clamp_remap :: "8 word \<Rightarrow> 8 word" where
  "clamp_remap v = word_of_int (max 0 (min 255 (2 * uint v - 50)))"

subsection \<open>A stand-in for OpenCV\<close>

text \<open>
  A small instance of \<open>cv_lib\<close>, to run the pipeline on concrete rasters. Its edge
  map keeps the pixels at or above the high threshold, its only contour is the outline
  of the image whenever the edge map has a pixel set, areas are computed by the shoelace
  formula, and every pixel of a warp is black; the filters are identities.
\<close>

fun cross_sum :: "contour \<Rightarrow> int" where
  "cross_sum (p # q # ps) = (fst p * snd q - fst q * snd p) + cross_sum (q # ps)"
| "cross_sum ps = 0"

definition shoelace_area :: "contour \<Rightarrow> real" where
  "shoelace_area c = (case c of [] \<Rightarrow> 0 | p # ps \<Rightarrow> \<bar>of_int (cross_sum (c @ [p]))\<bar> / 2)"

fun step_sum :: "contour \<Rightarrow> int" where
  "step_sum (p # q # ps) = \<bar>fst p - fst q\<bar> + \<bar>snd p - snd q\<bar> + step_sum (q # ps)"
| "step_sum ps = 0"

fun blank :: "raster \<Rightarrow> nat \<Rightarrow> nat \<Rightarrow> raster" where
  "blank (Gray g) w h = Gray (replicate h (replicate w 0))"
| "blank (Color c) w h = Color (replicate h (replicate w (0, 0, 0)))"

definition outline :: "gray_image \<Rightarrow> contour list" where
  "outline g =
     (if list_ex (list_ex (\<lambda>v. v \<noteq> 0)) g
      then [[(0, 0), (0, int (length g) - 1),
             (int (length (hd g)) - 1, int (length g) - 1), (int (length (hd g)) - 1, 0)]]
      else [])"

definition cv_sample :: cv_lib where
  "cv_sample =
     \<lparr>bgr2gray = (\<lambda>(b, g, r). g),
      resize = (\<lambda>src (w, h). if w \<le> 0 \<or> h \<le> 0 then Inl CvError else Inr (blank src (nat w) (nat h))),
      GaussianBlur = (\<lambda>g ksize sigma. g),
      Canny = (\<lambda>g lo hi. map (map (\<lambda>v. if hi \<le> uint v then 255 else 0)) g),
      dilate = (\<lambda>g kernel iterations. g),
      findContours = outline,
      contourArea = shoelace_area,
      arcLength = (\<lambda>c closed. case c of [] \<Rightarrow> 0 | p # ps \<Rightarrow> of_int (step_sum (c @ [p]))),
      approxPolyDP = (\<lambda>c epsilon closed. c),
      clahe_apply = (\<lambda>clip tiles g. g),
      bilateralFilter = (\<lambda>g d sigma_color sigma_space. g),
      adaptiveThreshold = (\<lambda>g max_value block_size C. map (map (\<lambda>v. if 128 \<le> uint v then 255 else 0)) g),
      getPerspectiveTransform = (\<lambda>src target. Inr [[1, 0, 0], [0, 1, 0], [0, 0, 1]]),
      warp_gray = (\<lambda>src M row col. 0),
      warp_bgr = (\<lambda>src M row col. (0, 0, 0))\<rparr>"

section \<open>Properties\<close>

subsection \<open>argmin and argmax\<close>



lemma argmin_le: "x \<in> set xs \<Longrightarrow> xs ! argmin xs \<le> x"
  by (induction xs rule: argmin.induct) (auto simp: Let_def)

lemma argmax_ge: "x \<in> set xs \<Longrightarrow> x \<le> xs ! argmax xs"
  by (induction xs rule: argmax.induct) (auto simp: Let_def)

lemma argmin_first: "j < argmin xs \<Longrightarrow> xs ! argmin xs < xs ! j"
proof (induction xs arbitrary: j rule: argmin.induct)
  case (3 x y ys)
  then show ?case
    by (cases j) (auto simp: Let_def split: if_splits dest: argmin_le [OF nth_mem, of _ "y # ys"])
qed simp_all

lemma argmax_first: "j < argmax xs \<Longrightarrow> xs ! j < xs ! argmax xs"
proof (induction xs arbitrary: j rule: argmax.induct)
  case (3 x y ys)
  then show ?case
    by (cases j) (auto simp: Let_def split: if_splits dest: argmax_ge [OF nth_mem, of _ "y # ys"])
qed simp_all



subsection \<open>The canonical ordering\<close>







subsection \<open>Rounding\<close>

lemma pow2_powr: "pow2 e = 2 powr of_int e"
proof (cases "0 \<le> e")
  case True
  then have "2 powr of_int e = (2::real) ^ nat e"
    by (metis powr_realpow of_nat_nat zero_less_numeral)
  with True show ?thesis by (simp add: pow2_def)
next
  case False
  then have "2 powr of_int (- e) = (2::real) ^ nat (- e)"
    by (metis powr_realpow of_nat_nat zero_less_numeral neg_0_le_iff_le linear)
  then have "2 powr of_int e = 1 / (2::real) ^ nat (- e)"
    by (simp add: powr_minus field_simps)
  with False show ?thesis by (simp add: pow2_def)
qed

lemma pow2_pos [simp]: "0 < pow2 e"
  by (simp add: pow2_powr)

lemma pow2_sign [simp]: "0 \<le> pow2 e" "pow2 e \<noteq> 0" "\<not> pow2 e \<le> 0" "\<bar>pow2 e\<bar> = pow2 e"
proof -
  have "0 < pow2 e" by (rule pow2_pos)
  then show "0 \<le> pow2 e" "pow2 e \<noteq> 0" "\<not> pow2 e \<le> 0" "\<bar>pow2 e\<bar> = pow2 e"
    by linarith+
qed

lemma pow2_add: "pow2 (a + b) = pow2 a * pow2 b"
  by (simp add: pow2_powr powr_add)

lemma pow2_nat: "pow2 (int n) = 2 ^ n"
  by (simp add: pow2_def)

lemma pow2_less_iff: "pow2 a < pow2 b \<longleftrightarrow> a < b"
  by (simp add: pow2_powr)

lemma binade_iff: "x \<noteq> 0 \<Longrightarrow> binade x = e \<longleftrightarrow> pow2 e \<le> \<bar>x\<bar> \<and> \<bar>x\<bar> < pow2 (e + 1)"
  unfolding binade_def pow2_powr
  using floor_log_eq_powr_iff [of "\<bar>x\<bar>" 2 e] by simp

lemma binade_bounds: "x \<noteq> 0 \<Longrightarrow> pow2 (binade x) \<le> \<bar>x\<bar> \<and> \<bar>x\<bar> < pow2 (binade x + 1)"
  using binade_iff [of x "binade x"] by simp

lemma binade_minus [simp]: "binade (- x) = binade x"
  by (simp add: binade_def)

lemma round_half_even_of_int [simp]: "round_half_even (of_int n) = n"
  by (simp add: round_half_even_def)







lemma fl_exact:
  assumes x: "x = of_int m * pow2 k" and m: "\<bar>m\<bar> < 2 ^ p"
  shows "fl p x = x"
proof (cases "x = 0")
  case True
  then show ?thesis by (simp add: fl_def)
next
  case False
  define e where "e = binade x"
  from binade_bounds [OF False] have "pow2 e \<le> \<bar>x\<bar>" by (simp add: e_def)
  also have "\<bar>x\<bar> = of_int \<bar>m\<bar> * pow2 k" by (simp add: x abs_mult)
  also have "\<dots> < 2 ^ p * pow2 k"
  proof -
    from m have "(of_int \<bar>m\<bar> :: real) < of_int (2 ^ p)" by (simp only: of_int_less_iff)
    then show ?thesis by simp
  qed
  also have "\<dots> = pow2 (int p + k)" by (simp add: pow2_add pow2_nat)
  finally have "e < int p + k" by (simp add: pow2_less_iff)
  then have "0 \<le> k - (e - int p + 1)" by simp
  then obtain j where "k - (e - int p + 1) = int j" using nonneg_int_cases by blast
  then have j: "k = (e - int p + 1) + int j" by simp
  have q: "of_int m * pow2 k / pow2 (e - int p + 1) = of_int (m * 2 ^ j)"
    unfolding j by (simp add: pow2_add pow2_nat)
  have "fl p x = of_int (round_half_even (x / pow2 (e - int p + 1))) * pow2 (e - int p + 1)"
    using False by (simp add: fl_def Let_def e_def)
  also have "x / pow2 (e - int p + 1) = of_int (m * 2 ^ j)"
    unfolding x by (rule q)
  also have "of_int (round_half_even (of_int (m * 2 ^ j))) * pow2 (e - int p + 1) =
      of_int m * pow2 k"
    unfolding j round_half_even_of_int by (simp add: pow2_add pow2_nat)
  finally show ?thesis by (simp add: x)
qed

lemma fl_of_int: "\<bar>n\<bar> < 2 ^ p \<Longrightarrow> fl p (of_int n) = of_int n"
  using fl_exact [of "of_int n" n 0 p] by (simp add: pow2_def)




lemma float32_int: "\<bar>n\<bar> < 2 ^ 24 \<Longrightarrow> float32 (of_int n) = of_int n"
  unfolding float32_def by (rule fl_of_int)

lemma float32_numeral [simp]:
  "numeral k < (2::int) ^ 24 \<Longrightarrow> float32 (numeral k) = numeral k"
  "numeral k < (2::int) ^ 24 \<Longrightarrow> float32 (- numeral k) = - numeral k"
  "float32 0 = 0" "float32 1 = 1" "float32 (- 1) = - 1"
  using float32_int [of "numeral k"] float32_int [of "- numeral k"]
    float32_int [of 0] float32_int [of 1] float32_int [of "- 1"]
  by simp_all

lemma float64_int: "\<bar>n\<bar> < 2 ^ 53 \<Longrightarrow> float64 (of_int n) = of_int n"
  unfolding float64_def by (rule fl_of_int)

lemma float64_numeral [simp]:
  "numeral k < (2::int) ^ 53 \<Longrightarrow> float64 (numeral k) = numeral k"
  "float64 0 = 0" "float64 1 = 1"
  using float64_int [of "numeral k"] float64_int [of 0] float64_int [of 1]
  by simp_all





subsection \<open>The size of the rectified image\<close>
















lemma map_const_upt: "map (\<lambda>i. k) [0..<n] = replicate n k"
  by (simp add: map_replicate_const)

lemma sqrt_squares: "sqrt 9 = 3" "sqrt 16 = 4" "sqrt 225 = 15" "sqrt 9000000 = 3000"
  using real_sqrt_abs2 [of 3] real_sqrt_abs2 [of 4] real_sqrt_abs2 [of 15]
    real_sqrt_abs2 [of 3000]
  by simp_all







subsection \<open>Degenerate quadrilaterals\<close>

text \<open>
  Claim C5, as amended. \<open>four_point_transform\<close> does not check the width and the height
  it computes. For a quadrilateral whose width or height is 0 it still asks the library
  for the transform, onto target corners with a coordinate \<open>-1\<close>, and for the warp to
  the size \<open>(maxWidth, maxHeight)\<close>: when the library returns a raster, that raster is
  the result, and the result is an error only when one of the two library calls raises
  it.
\<close>

theorem degenerate_size_not_checked:
  assumes "order_points pts = Inr corners" and "rect = float32_quad corners"
    and "maxWidth rect = 0 \<or> maxHeight rect = 0"
  shows "(maxWidth rect = 0 \<longrightarrow> tr (dst rect) = (- 1, 0)) \<and>
         (maxHeight rect = 0 \<longrightarrow> bl (dst rect) = (0, - 1)) \<and>
         (\<forall>M out. getPerspectiveTransform cv rect (dst rect) = Inr M \<and>
            warpPerspective cv img M (maxWidth rect, maxHeight rect) = Inr out \<longrightarrow>
            four_point_transform cv img pts = Inr out) \<and>
         (\<forall>e. four_point_transform cv img pts = Inl e \<longrightarrow>
            getPerspectiveTransform cv rect (dst rect) = Inl e \<or>
            (\<exists>M. getPerspectiveTransform cv rect (dst rect) = Inr M \<and>
                 warpPerspective cv img M (maxWidth rect, maxHeight rect) = Inl e))"
  using assms(1) unfolding assms(2)
  by (auto simp: four_point_transform_def and_then_def dst_def Let_def split: sum.splits)

theorem degenerate_size_not_checked_witness:
  "maxWidth \<lparr>tl = (3, 4), tr = (3, 4), br = (3, 4), bl = (3, 4)\<rparr> = 0 \<and>
   four_point_transform cv_sample (Color [[(1, 2, 3), (4, 5, 6)]]) [(3, 4), (3, 4), (3, 4), (3, 4)] =
     Inr (Color [[(0, 0, 0), (0, 0, 0)]])"
proof -
  let ?rect = "\<lparr>tl = (3, 4), tr = (3, 4), br = (3, 4), bl = (3, 4)\<rparr> :: quad"
  let ?img = "Color [[(1, 2, 3), (4, 5, 6)]]"
  have o: "order_points [(3, 4), (3, 4), (3, 4), (3, 4)] = Inr ?rect"
    by (simp add: order_points_def psum_def pdiff_def)
  have r: "?rect = float32_quad ?rect" by (simp add: float32_quad_def)
  have w: "maxWidth ?rect = 0"
    by (simp add: maxWidth_def sqrt32_def add32_def sq32_def sub32_def py_int_def)
  have h: "maxHeight ?rect = 0"
    by (simp add: maxHeight_def sqrt32_def add32_def sq32_def sub32_def py_int_def)
  have g: "getPerspectiveTransform cv_sample ?rect (dst ?rect) = Inr [[1, 0, 0], [0, 1, 0], [0, 0, 1]]"
    by (simp add: cv_sample_def)
  have p: "warpPerspective cv_sample ?img [[1, 0, 0], [0, 1, 0], [0, 0, 1]] (maxWidth ?rect, maxHeight ?rect) =
      Inr (Color [[(0, 0, 0), (0, 0, 0)]])"
    by (simp add: w h warpPerspective_def empty_raster_def cv_sample_def map_const_upt)
  from degenerate_size_not_checked [OF o r, of cv_sample ?img] w g p show ?thesis by blast
qed

text \<open>
  Claim C5 as stated fails: on four collinear points the computed width is 0, the warp
  to the empty size falls back to the size of the source, and the rectifier returns a
  raster, not an error.
\<close>

theorem degenerate_quad_counterexample:
  "maxWidth \<lparr>tl = (0, 0), tr = (0, 0), br = (9, 12), bl = (9, 12)\<rparr> = 0 \<and>
   order_points [(0, 0), (3, 4), (6, 8), (9, 12)] =
     Inr \<lparr>tl = (0, 0), tr = (0, 0), br = (9, 12), bl = (9, 12)\<rparr> \<and>
   four_point_transform cv_sample (Color [[(1, 2, 3), (4, 5, 6)]]) [(0, 0), (3, 4), (6, 8), (9, 12)] =
     Inr (Color [[(0, 0, 0), (0, 0, 0)]])"
  by (simp add: four_point_transform_def order_points_def psum_def pdiff_def and_then_def
      float32_quad_def maxWidth_def maxHeight_def sqrt32_def add32_def sq32_def sub32_def
      py_int_def sqrt_squares warpPerspective_def empty_raster_def cv_sample_def map_const_upt)

subsection \<open>The locator\<close>
























subsection \<open>The High Contrast remap\<close>

text \<open>
  Claim C2. The specification's remap for High Contrast mode is
  \<open>clamp(2 v - 50, 0, 255)\<close>, under which every value below 25 maps to 0. The code does
  not compute it: \<^verbatim>\<open>cv2.convertScaleAbs\<close> takes the absolute value before it saturates,
  so that on a colour image with the pixels 0, 10, 25 and 200 the code returns 50, 30, 0
  and 255 where the clamp gives 0, 0, 0 and 255: black comes out brighter than the value
  25.
\<close>

theorem high_contrast_fold_over:
  "process_image cv_sample (Color [[(0, 0, 0), (10, 10, 10), (25, 25, 25), (200, 200, 200)]])
     False ''High Contrast'' =
     Inr (Some (Color [[(50, 50, 50), (30, 30, 30), (0, 0, 0), (255, 255, 255)]])) \<and>
   map_raster clamp_remap (Color [[(0, 0, 0), (10, 10, 10), (25, 25, 25), (200, 200, 200)]]) =
     Color [[(0, 0, 0), (0, 0, 0), (0, 0, 0), (255, 255, 255)]]"
  by (simp add: process_image_def enhance_def and_then_def increase_contrast_def
      convertScaleAbs_def empty_raster_def scale_abs_def cvRound_def round_half_even_def
      saturate_uchar_def clamp_remap_def)

subsection \<open>The modes and the channel count\<close>

lemma cvtColor_gray: "channels img = 1 \<Longrightarrow> cvtColor_BGR2GRAY cv img = Inl CvError"
  by (cases img) (simp_all add: cvtColor_BGR2GRAY_def)

lemma cvtColor_color:
  "channels img = 3 \<Longrightarrow> \<not> empty_raster img \<Longrightarrow> \<exists>g. cvtColor_BGR2GRAY cv img = Inr g"
  by (cases img) (simp_all add: cvtColor_BGR2GRAY_def)

lemma channels_map_raster: "channels (map_raster f img) = channels img"
  by (cases img) simp_all

lemma process_image_plain: "process_image cv img False mode = enhance cv mode img"
  by (simp add: process_image_def and_then_def)

lemma enhance_color:
  assumes "channels img = 3" and "\<not> empty_raster img"
  shows "\<exists>out. enhance cv mode img = Inr (Some out)"
  using cvtColor_color [OF assms, of cv] assms(2)
  by (auto simp: enhance_def apply_adaptive_threshold_def and_then_def Let_def
      increase_contrast_def convertScaleAbs_def)

text \<open>
  Claim C3, as amended. On a non-empty 3-channel raster the modes Grayscale and Scan
  succeed and return a single-channel raster; on a single-channel raster both are
  rejected with the error of the colour conversion. The mode Original succeeds on every
  raster and the mode High Contrast on every non-empty raster, and each returns a raster
  with the channel count of the input.
\<close>

theorem enhancement_channels:
  "(channels img = 3 \<and> \<not> empty_raster img \<longrightarrow>
      (\<exists>out. process_image cv img False ''Grayscale'' = Inr (Some out) \<and> channels out = 1) \<and>
      (\<exists>out. process_image cv img False ''Scan'' = Inr (Some out) \<and> channels out = 1)) \<and>
   (channels img = 1 \<longrightarrow>
      process_image cv img False ''Grayscale'' = Inl CvError \<and>
      process_image cv img False ''Scan'' = Inl CvError) \<and>
   (\<exists>out. process_image cv img False ''Original'' = Inr (Some out) \<and>
      channels out = channels img) \<and>
   (\<not> empty_raster img \<longrightarrow>
      (\<exists>out. process_image cv img False ''High Contrast'' = Inr (Some out) \<and>
         channels out = channels img))"
proof -
  have a: "(\<exists>out. process_image cv img False ''Grayscale'' = Inr (Some out) \<and> channels out = 1) \<and>
      (\<exists>out. process_image cv img False ''Scan'' = Inr (Some out) \<and> channels out = 1)"
    if "channels img = 3" "\<not> empty_raster img"
    using cvtColor_color [OF that, of cv]
    by (auto simp: process_image_plain enhance_def apply_adaptive_threshold_def and_then_def Let_def)
  have b: "process_image cv img False ''Grayscale'' = Inl CvError \<and>
      process_image cv img False ''Scan'' = Inl CvError" if "channels img = 1"
    using cvtColor_gray [OF that, of cv]
    by (simp add: process_image_plain enhance_def apply_adaptive_threshold_def and_then_def)
  have c: "\<exists>out. process_image cv img False ''Original'' = Inr (Some out) \<and>
      channels out = channels img"
    by (simp add: process_image_plain enhance_def)
  have d: "\<exists>out. process_image cv img False ''High Contrast'' = Inr (Some out) \<and>
      channels out = channels img" if "\<not> empty_raster img"
    using that
    by (simp add: process_image_plain enhance_def increase_contrast_def convertScaleAbs_def
        channels_map_raster)
  from a b c d show ?thesis by blast
qed

theorem enhancement_channels_witness:
  "(\<exists>out. process_image cv_sample (Color [[(1, 2, 3)]]) False ''Grayscale'' = Inr (Some out) \<and>
      channels out = 1) \<and>
   (\<exists>out. process_image cv_sample (Color [[(1, 2, 3)]]) False ''Scan'' = Inr (Some out) \<and>
      channels out = 1) \<and>
   (\<exists>out. process_image cv_sample (Color [[(1, 2, 3)]]) False ''High Contrast'' = Inr (Some out) \<and>
      channels out = 3) \<and>
   process_image cv_sample (Gray [[7]]) False ''Grayscale'' = Inl CvError \<and>
   process_image cv_sample (Gray [[7]]) False ''Scan'' = Inl CvError"
  using enhancement_channels [of "Color [[(1, 2, 3)]]" cv_sample]
    enhancement_channels [of "Gray [[7]]" cv_sample]
  by (simp add: empty_raster_def)

text \<open>
  Claim C3 as stated fails on a single-channel raster: the modes Grayscale and Scan
  raise.
\<close>

theorem grayscale_input_counterexample:
  "process_image cv_sample (Gray [[7]]) False ''Grayscale'' = Inl CvError \<and>
   process_image cv_sample (Gray [[7]]) False ''Scan'' = Inl CvError"
  by (simp add: process_image_def enhance_def apply_adaptive_threshold_def and_then_def
      cvtColor_BGR2GRAY_def empty_raster_def)

subsection \<open>The fallback when no document is found\<close>

text \<open>
  Claim C4. When \<open>find_document_contour\<close> returns \<^verbatim>\<open>None\<close> and the perspective step
  is enabled, \<open>process_image\<close> returns what the selected mode returns on the unmodified
  input, which is also the result with the perspective step disabled; for a non-empty
  3-channel input that result is a raster, not an error.
\<close>

theorem not_found_fallback:
  assumes "find_document_contour cv img = Inr None"
  shows "process_image cv img True mode = enhance cv mode img \<and>
         process_image cv img True mode = process_image cv img False mode \<and>
         (channels img = 3 \<and> \<not> empty_raster img \<longrightarrow>
            (\<exists>out. process_image cv img True mode = Inr (Some out)))"
proof -
  from assms have "process_image cv img True mode = enhance cv mode img"
    by (simp add: process_image_def and_then_def)
  then show ?thesis
    using enhance_color [of img cv mode] by (auto simp: process_image_plain)
qed

theorem not_found_fallback_witness:
  "find_document_contour cv_sample (Color [[(0, 0, 0), (0, 0, 0)]]) = Inr None \<and>
   process_image cv_sample (Color [[(0, 0, 0), (0, 0, 0)]]) True ''Scan'' =
     Inr (Some (Gray [[0, 0]]))"
proof -
  have n: "find_document_contour cv_sample (Color [[(0, 0, 0), (0, 0, 0)]]) = Inr None"
    by (simp add: find_document_contour_def preprocess_def detection_scale_def cv_sample_def
        and_then_def cvtColor_BGR2GRAY_def empty_raster_def canny_thresholds_def edge_pass_def
        candidates_def outline_def)
  have "enhance cv_sample ''Scan'' (Color [[(0, 0, 0), (0, 0, 0)]]) = Inr (Some (Gray [[0, 0]]))"
    by (simp add: enhance_def apply_adaptive_threshold_def cv_sample_def and_then_def
        cvtColor_BGR2GRAY_def empty_raster_def)
  with not_found_fallback [OF n, of "''Scan''"] n show ?thesis by simp
qed

subsection \<open>Scan mode applied twice\<close>

text \<open>
  Claim C9, as amended. The output of Scan mode is a single-channel raster, and Scan mode
  applied to that output is rejected with the error of the colour conversion: a second
  application does not return the image of the first.
\<close>

theorem scan_twice_rejected:
  assumes "process_image cv img up ''Scan'' = Inr (Some out)"
  shows "channels out = 1 \<and> enhance cv ''Scan'' out = Inl CvError \<and>
         process_image cv out False ''Scan'' = Inl CvError"
proof -
  from assms obtain w where "apply_adaptive_threshold cv w = Inr out"
    by (auto simp: process_image_def enhance_def and_then_def split: sum.splits if_splits)
  then have "channels out = 1"
    by (auto simp: apply_adaptive_threshold_def and_then_def Let_def split: sum.splits)
  then show ?thesis
    using cvtColor_gray [of out cv]
    by (simp add: process_image_plain enhance_def apply_adaptive_threshold_def and_then_def)
qed

theorem scan_twice_rejected_witness:
  "process_image cv_sample (Color [[(200, 200, 200)]]) False ''Scan'' = Inr (Some (Gray [[255]])) \<and>
   channels (Gray [[255]]) = 1 \<and>
   process_image cv_sample (Gray [[255]]) False ''Scan'' = Inl CvError"
proof -
  have p: "process_image cv_sample (Color [[(200, 200, 200)]]) False ''Scan'' =
      Inr (Some (Gray [[255]]))"
    by (simp add: process_image_def enhance_def apply_adaptive_threshold_def cv_sample_def
        and_then_def cvtColor_BGR2GRAY_def empty_raster_def)
  from scan_twice_rejected [OF p] p show ?thesis by simp
qed

text \<open>
  Claim C9 as stated fails: on a one-pixel colour image Scan mode returns a raster, and
  Scan mode on that raster does not return it again.
\<close>

theorem scan_idempotent_counterexample:
  "process_image cv_sample (Color [[(200, 200, 200)]]) False ''Scan'' = Inr (Some (Gray [[255]])) \<and>
   process_image cv_sample (Gray [[255]]) False ''Scan'' \<noteq> Inr (Some (Gray [[255]]))"
  by (simp add: process_image_def enhance_def apply_adaptive_threshold_def cv_sample_def
      and_then_def cvtColor_BGR2GRAY_def empty_raster_def)

subsection \<open>Unrecognised mode strings\<close>

text \<open>
  Claim C10. For every mode string other than \<^verbatim>\<open>Grayscale\<close>, \<^verbatim>\<open>Scan\<close> and
  \<^verbatim>\<open>High Contrast\<close> the dispatch returns the working image unchanged, and
  \<open>process_image\<close> behaves as it does in Original mode.
\<close>

theorem unknown_mode_is_original:
  assumes "mode \<noteq> ''Grayscale''" and "mode \<noteq> ''Scan''" and "mode \<noteq> ''High Contrast''"
  shows "enhance cv mode out = Inr (Some out) \<and>
         process_image cv img up mode = process_image cv img up ''Original''"
  using assms by (simp add: process_image_def enhance_def)

theorem unknown_mode_is_original_witness:
  "process_image cv_sample (Color [[(1, 2, 3)]]) False ''HighContrast'' =
     Inr (Some (Color [[(1, 2, 3)]])) \<and>
   process_image cv_sample (Color [[(1, 2, 3)]]) False ''HighContrast'' =
     process_image cv_sample (Color [[(1, 2, 3)]]) False ''Original''"
proof -
  have "enhance cv_sample ''HighContrast'' (Color [[(1, 2, 3)]]) = Inr (Some (Color [[(1, 2, 3)]]))"
    using unknown_mode_is_original [of "''HighContrast''"] by simp
  moreover have "process_image cv_sample (Color [[(1, 2, 3)]]) False ''HighContrast'' =
     process_image cv_sample (Color [[(1, 2, 3)]]) False ''Original''"
    using unknown_mode_is_original [of "''HighContrast''"] by simp
  ultimately show ?thesis by (simp add: process_image_plain)
qed

end
